theory Spec2Isabelle
  imports Complex_Main "HOL-Library.Word" "HOL-Library.Sublist"
begin

section \<open>JavaScript values\<close>

text \<open>
  The QR code adapter (\<^verbatim>\<open>/assets/qr-code/adapter.js\<close>, given in the QR code audit
  document) is JavaScript. A string is a sequence of UTF-16 code units, and
  \<^verbatim>\<open>data.length\<close> counts code units. String literals of the source are written
  \<open>lit ''...''\<close>.
\<close>

type_synonym jschar = "16 word"
type_synonym jsstring = "jschar list"

definition lit :: "string \<Rightarrow> jsstring" where
  "lit s = map of_char s"

text \<open>
  Numbers are IEEE doubles: the finite ones are read as reals (both zeros are \<open>Fin 0\<close>).
  \<open>JObject\<close> stands for any object (arrays and functions included); BigInt and Symbol
  values are not modelled.
\<close>

datatype jsnum = NaN | PosInfinity | NegInfinity | Fin real

datatype jsval = JUndefined | JNull | JBool bool | JNum jsnum | JStr jsstring | JObject

text \<open>ToBoolean: \<^verbatim>\<open>undefined\<close>, \<^verbatim>\<open>null\<close>, \<^verbatim>\<open>false\<close>, \<^verbatim>\<open>0\<close>, \<^verbatim>\<open>NaN\<close> and \<^verbatim>\<open>''\<close> are falsy.\<close>

fun truthy :: "jsval \<Rightarrow> bool" where
  "truthy JUndefined = False"
| "truthy JNull = False"
| "truthy (JBool b) = b"
| "truthy (JNum NaN) = False"
| "truthy (JNum (Fin x)) = (x \<noteq> 0)"
| "truthy (JNum PosInfinity) = True"
| "truthy (JNum NegInfinity) = True"
| "truthy (JStr s) = (s \<noteq> [])"
| "truthy JObject = True"

text \<open>The operator \<^verbatim>\<open>a || b\<close>.\<close>

definition js_or :: "jsval \<Rightarrow> jsval \<Rightarrow> jsval" where
  "js_or a b = (if truthy a then a else b)"

text \<open>
  \<^verbatim>\<open>String.prototype.trim\<close> removes the WhiteSpace and LineTerminator code points of
  ECMAScript from both ends.
\<close>

definition isWhiteSpace :: "jschar \<Rightarrow> bool" where
  "isWhiteSpace c \<longleftrightarrow>
     c \<in> set [0x0009, 0x000A, 0x000B, 0x000C, 0x000D, 0x0020, 0x00A0, 0x1680,
              0x2000, 0x2001, 0x2002, 0x2003, 0x2004, 0x2005, 0x2006, 0x2007,
              0x2008, 0x2009, 0x200A, 0x2028, 0x2029, 0x202F, 0x205F, 0x3000, 0xFEFF]"

definition trim :: "jsstring \<Rightarrow> jsstring" where
  "trim s = rev (dropWhile isWhiteSpace (rev (dropWhile isWhiteSpace s)))"

text \<open>\<^verbatim>\<open>s.includes(p)\<close>: \<open>p\<close> occurs in \<open>s\<close> as a contiguous run.\<close>

fun js_includes :: "jsstring \<Rightarrow> jsstring \<Rightarrow> bool" where
  "js_includes [] p = (p = [])"
| "js_includes (c # cs) p = (prefix p (c # cs) \<or> js_includes cs p)"

text \<open>\<^verbatim>\<open>xs.join(sep)\<close> on an array of strings.\<close>

fun js_join :: "jsstring \<Rightarrow> jsstring list \<Rightarrow> jsstring" where
  "js_join sep [] = []"
| "js_join sep [x] = x"
| "js_join sep (x # y # ys) = x @ sep @ js_join sep (y # ys)"

text \<open>
  What a \<^verbatim>\<open>throw\<close> inside the \<^verbatim>\<open>try\<close> block carries, as far as the \<^verbatim>\<open>catch\<close> block looks
  at it. \<open>ThrownError m\<close> is an exception object whose \<^verbatim>\<open>message\<close> is the string \<open>m\<close>
  (an Error, one of its subclasses, or any object with such a message). \<open>ThrownValue p r\<close>
  is any other thrown value: \<open>p\<close> is the outcome of \<^verbatim>\<open>error.message.includes('QR code')\<close>
  read as a boolean (an array message has \<^verbatim>\<open>includes\<close> too), and \<open>None\<close> when evaluating
  it raises a TypeError (\<^verbatim>\<open>null\<close> or \<^verbatim>\<open>undefined\<close> thrown, a value without a message, a
  message without \<^verbatim>\<open>includes\<close>); \<open>r\<close> is the text the template \<^verbatim>\<open>${error.message}\<close>
  gives. A message whose own \<^verbatim>\<open>includes\<close> or \<^verbatim>\<open>toString\<close> throws is not modelled.
\<close>

datatype thrown = ThrownError jsstring | ThrownValue "bool option" jsstring

text \<open>
  What \<^verbatim>\<open>generateQRCode\<close> throws. \<open>Error m\<close> is an exception object whose \<^verbatim>\<open>message\<close> is
  the string \<open>m\<close>; \<open>Value r\<close> is a value of the second kind above, rethrown unchanged,
  with the text \<open>r\<close> of its message; \<open>TypeError\<close> is the fault the runtime raises in the
  \<^verbatim>\<open>catch\<close> block when \<^verbatim>\<open>error.message.includes\<close> cannot be evaluated.
\<close>

datatype js_exn = Error jsstring | Value jsstring | TypeError

text \<open>
  The conversions behind an assignment to \<^verbatim>\<open>canvas.width\<close> or \<^verbatim>\<open>canvas.height\<close>, which
  are \<^verbatim>\<open>unsigned long\<close> attributes of an \<^verbatim>\<open>HTMLCanvasElement\<close>. The number is truncated
  towards zero and reduced modulo \<open>2 ^ 32\<close>; \<^verbatim>\<open>NaN\<close> and the infinities give 0.
\<close>

definition toUnsignedLong :: "jsnum \<Rightarrow> nat" where
  "toUnsignedLong n =
     (case n of
        Fin x \<Rightarrow> nat ((if x < 0 then - \<lfloor>- x\<rfloor> else \<lfloor>x\<rfloor>) mod 2 ^ 32)
      | _ \<Rightarrow> 0)"

text \<open>
  The attribute keeps a value from 0 to 2147483647 and falls back to its default
  otherwise; the default is 300 for the width and 150 for the height of a canvas.
\<close>

definition reflectUnsignedLong :: "nat \<Rightarrow> nat \<Rightarrow> nat" where
  "reflectUnsignedLong dflt n = (if n \<le> 2147483647 then n else dflt)"

text \<open>The value of a string of decimal digits.\<close>

definition isDecimalDigit :: "jschar \<Rightarrow> bool" where
  "isDecimalDigit c \<longleftrightarrow> 0x30 \<le> c \<and> c \<le> 0x39"

definition digitsValue :: "jsstring \<Rightarrow> nat" where
  "digitsValue s = foldl (\<lambda>a c. 10 * a + (unat c - 48)) 0 s"

section \<open>The legacy encoder and the page, as the adapter sees them\<close>

text \<open>
  The adapter drives the legacy \<^verbatim>\<open>QRCode\<close> object of \<^verbatim>\<open>qr-code-generator.js\<close> through
  five calls and reads the finished symbol through two accessors. The library is not
  part of the sources, so it is a parameter: \<open>'q\<close> is the state of the legacy object,
  every call returns the next state or throws. The accessors are taken not to throw.
  \<open>dom_getContext\<close> tells whether \<^verbatim>\<open>canvas.getContext('2d')\<close> yields a context.
  \<open>js_toNumber\<close> is the ToNumber of the runtime on the values that are not converted
  below: an object, whose conversion may throw, and a string that is not a plain decimal
  numeral.
\<close>

record 'q environment =
  lib_new :: "thrown + 'q"
  lib_setTypeNumber :: "'q \<Rightarrow> int \<Rightarrow> thrown + 'q"
  lib_setErrorCorrectLevel :: "'q \<Rightarrow> int \<Rightarrow> thrown + 'q"
  lib_addData :: "'q \<Rightarrow> jsstring \<Rightarrow> thrown + 'q"
  lib_make :: "'q \<Rightarrow> thrown + 'q"
  lib_getModuleCount :: "'q \<Rightarrow> int"
  lib_isDark :: "'q \<Rightarrow> nat \<Rightarrow> nat \<Rightarrow> bool"
  dom_getContext :: bool
  js_toNumber :: "jsval \<Rightarrow> thrown + jsnum"

text \<open>The calls made on the legacy object, in the order they were made.\<close>

datatype call =
    NewQRCode
  | SetTypeNumber int
  | SetErrorCorrectLevel int
  | AddData jsstring
  | Make

text \<open>
  The canvas, an \<^verbatim>\<open>HTMLCanvasElement\<close>: the two dimensions as \<^verbatim>\<open>canvas.width\<close> and
  \<^verbatim>\<open>canvas.height\<close> read after the assignments, and the modules painted black, in
  painting order. The pixel arithmetic of \<^verbatim>\<open>drawQRCodeOnCanvas\<close>
  (\<^verbatim>\<open>Math.floor(size / moduleCount)\<close>, in floating point) is left out: \<open>painted\<close> lists
  module coordinates (row, column).
\<close>

record canvas =
  width :: nat
  height :: nat
  painted :: "(nat \<times> nat) list"

text \<open>
  The options object. The adapter reads \<^verbatim>\<open>size\<close> and \<^verbatim>\<open>errorCorrection\<close>;
  \<^verbatim>\<open>forcedVersion\<close> is the option the specification names, which a caller may pass
  and which the adapter never reads.
\<close>

record options =
  opt_size :: jsval
  opt_errorCorrection :: jsval
  opt_forcedVersion :: jsval

datatype outcome = Returns canvas | Throws js_exn

section \<open>The adapter\<close>

text \<open>
  \<^verbatim>\<open>getTypeNumberForData(data)\<close>: a cascade on the length of the payload, with the
  fallback \<^verbatim>\<open>return 10\<close>.
\<close>

definition getTypeNumberForData :: "jsstring \<Rightarrow> int" where
  "getTypeNumberForData data =
     (if length data \<le> 41 then 1
      else if length data \<le> 77 then 2
      else if length data \<le> 127 then 3
      else if length data \<le> 187 then 4
      else if length data \<le> 255 then 5
      else if length data \<le> 322 then 6
      else if length data \<le> 370 then 7
      else 10)"

text \<open>
  \<^verbatim>\<open>errorCorrectionToLevel(level)\<close>: \<^verbatim>\<open>mapping[level] ?? 0\<close> with
  \<^verbatim>\<open>mapping = { L: 1, M: 0, Q: 3, H: 2 }\<close>. Keys inherited from \<^verbatim>\<open>Object.prototype\<close>
  are not modelled; the adapter calls it with one of the four letters only.
\<close>

definition errorCorrectionToLevel :: "jsval \<Rightarrow> int" where
  "errorCorrectionToLevel level =
     (if level = JStr (lit ''L'') then 1
      else if level = JStr (lit ''M'') then 0
      else if level = JStr (lit ''Q'') then 3
      else if level = JStr (lit ''H'') then 2
      else 0)"

text \<open>
  \<^verbatim>\<open>drawQRCodeOnCanvas(ctx, qr, size)\<close>: the two nested loops over rows and columns,
  painting a square where \<^verbatim>\<open>qr.isDark(row, col)\<close>.
\<close>

definition drawQRCodeOnCanvas :: "'q environment \<Rightarrow> canvas \<Rightarrow> 'q \<Rightarrow> canvas" where
  "drawQRCodeOnCanvas env cv qr =
     (let moduleCount = nat (lib_getModuleCount env qr)
      in cv\<lparr>painted :=
              concat (map (\<lambda>row. map (\<lambda>col. (row, col))
                                     (filter (\<lambda>col. lib_isDark env qr row col) [0..<moduleCount]))
                          [0..<moduleCount])\<rparr>)"

definition validLevels :: "jsstring list" where
  "validLevels = [lit ''L'', lit ''M'', lit ''H'', lit ''Q'']"

definition nonEmptyMessage :: jsstring where
  "nonEmptyMessage = lit ''QR code data must be non-empty string''"

definition tooLongMessage :: jsstring where
  "tooLongMessage = lit ''QR code data too long (max 2953 characters)''"

definition invalidLevelMessage :: jsstring where
  "invalidLevelMessage =
     lit ''Invalid error correction level. Expected one of: '' @ js_join (lit '', '') validLevels"

definition noContextMessage :: jsstring where
  "noContextMessage = lit ''Could not get canvas context''"

definition failedPrefix :: jsstring where
  "failedPrefix = lit ''Failed to generate QR code: ''"

text \<open>
  ToNumber, as the assignments \<^verbatim>\<open>canvas.width = size\<close> and \<^verbatim>\<open>canvas.height = size\<close>
  apply it. A string is trimmed first; the empty string is 0, and a string of decimal
  digits up to \<open>2 ^ 53\<close> is its value, which a double holds exactly.
\<close>

definition toNumber :: "'q environment \<Rightarrow> jsval \<Rightarrow> thrown + jsnum" where
  "toNumber env v =
     (case v of
        JUndefined \<Rightarrow> Inr NaN
      | JNull \<Rightarrow> Inr (Fin 0)
      | JBool b \<Rightarrow> Inr (Fin (if b then 1 else 0))
      | JNum n \<Rightarrow> Inr n
      | JStr s \<Rightarrow>
          (let t = trim s
           in if t = [] then Inr (Fin 0)
              else if list_all isDecimalDigit t \<and> digitsValue t \<le> 2 ^ 53
              then Inr (Fin (real (digitsValue t)))
              else js_toNumber env v)
      | JObject \<Rightarrow> js_toNumber env v)"

text \<open>
  The body of the \<^verbatim>\<open>try\<close> block of \<^verbatim>\<open>generateQRCode\<close>: the five calls on the legacy
  object, then the canvas with its two assignments, the drawing context and the drawing.
  The result is the canvas or what was thrown, with the calls made so far.
\<close>

definition tryBlock ::
  "'q environment \<Rightarrow> jsstring \<Rightarrow> jsval \<Rightarrow> jsval \<Rightarrow> (thrown + canvas) \<times> call list" where
  "tryBlock env data size' errorCorrection =
     (let t = getTypeNumberForData data; l = errorCorrectionToLevel errorCorrection in
      case lib_new env of
        Inl e \<Rightarrow> (Inl e, [NewQRCode])
      | Inr q0 \<Rightarrow>
      (case lib_setTypeNumber env q0 t of
        Inl e \<Rightarrow> (Inl e, [NewQRCode, SetTypeNumber t])
      | Inr q1 \<Rightarrow>
      (case lib_setErrorCorrectLevel env q1 l of
        Inl e \<Rightarrow> (Inl e, [NewQRCode, SetTypeNumber t, SetErrorCorrectLevel l])
      | Inr q2 \<Rightarrow>
      (case lib_addData env q2 data of
        Inl e \<Rightarrow> (Inl e, [NewQRCode, SetTypeNumber t, SetErrorCorrectLevel l, AddData data])
      | Inr q3 \<Rightarrow>
      (case lib_make env q3 of
        Inl e \<Rightarrow>
          (Inl e, [NewQRCode, SetTypeNumber t, SetErrorCorrectLevel l, AddData data, Make])
      | Inr qr \<Rightarrow>
      (case toNumber env size' of
        Inl e \<Rightarrow>
          (Inl e, [NewQRCode, SetTypeNumber t, SetErrorCorrectLevel l, AddData data, Make])
      | Inr n \<Rightarrow>
          (if \<not> dom_getContext env then Inl (ThrownError noContextMessage)
           else Inr (drawQRCodeOnCanvas env
                       \<lparr>width = reflectUnsignedLong 300 (toUnsignedLong n),
                        height = reflectUnsignedLong 150 (toUnsignedLong n),
                        painted = []\<rparr> qr),
           [NewQRCode, SetTypeNumber t, SetErrorCorrectLevel l, AddData data, Make])))))))"

text \<open>
  The \<^verbatim>\<open>catch\<close> block: what was thrown is rethrown when
  \<^verbatim>\<open>error.message.includes('QR code')\<close> holds, and wrapped into a new Error with the text
  of its message otherwise; where that test cannot be evaluated the runtime raises a
  TypeError.
\<close>

definition catchBlock :: "thrown \<Rightarrow> js_exn" where
  "catchBlock error =
     (case error of
        ThrownError m \<Rightarrow>
          if js_includes m (lit ''QR code'') then Error m else Error (failedPrefix @ m)
      | ThrownValue None r \<Rightarrow> TypeError
      | ThrownValue (Some True) r \<Rightarrow> Value r
      | ThrownValue (Some False) r \<Rightarrow> Error (failedPrefix @ r))"

text \<open>
  \<^verbatim>\<open>generateQRCode(data, options = {})\<close>. An absent option is \<open>JUndefined\<close>. The result
  is the outcome paired with the calls made on the legacy object.
\<close>

definition generateQRCode ::
  "'q environment \<Rightarrow> jsval \<Rightarrow> options \<Rightarrow> outcome \<times> call list" where
  "generateQRCode env data opts =
     (case data of
        JStr s \<Rightarrow>
          if trim s = [] then (Throws (Error nonEmptyMessage), [])
          else if length s > 2953 then (Throws (Error tooLongMessage), [])
          else
            (let size' = js_or (opt_size opts) (JNum (Fin 300));
                 errorCorrection = js_or (opt_errorCorrection opts) (JStr (lit ''M''))
             in if errorCorrection \<notin> JStr ` set validLevels
                then (Throws (Error invalidLevelMessage), [])
                else (case tryBlock env s size' errorCorrection of
                        (Inr cv, calls) \<Rightarrow> (Returns cv, calls)
                      | (Inl error, calls) \<Rightarrow> (Throws (catchBlock error), calls)))
      | _ \<Rightarrow> (Throws (Error nonEmptyMessage), []))"

section \<open>The encoder of the specification\<close>

text \<open>
  The legacy encoder itself (\<^verbatim>\<open>qr-code-generator.js\<close>) is not among the sources. What
  the properties below need of it is modelled from the specification.
\<close>

datatype level = LevelL | LevelM | LevelQ | LevelH

text \<open>
  The level a requested \<^verbatim>\<open>errorCorrection\<close> string names (the keys of \<^verbatim>\<open>mapping\<close> in
  \<^verbatim>\<open>errorCorrectionToLevel\<close>). The levels rise from L over M and Q to H.
\<close>

definition requestedLevel :: "jsval \<Rightarrow> level option" where
  "requestedLevel v =
     (if v = JStr (lit ''L'') then Some LevelL
      else if v = JStr (lit ''M'') then Some LevelM
      else if v = JStr (lit ''Q'') then Some LevelQ
      else if v = JStr (lit ''H'') then Some LevelH
      else None)"

text \<open>
  Modelled from the spec: the per-version capacity table of the legacy encoder, which is
  not among the sources. The specification (sections 3 and 4.1) takes it from the QR Code
  standard and requires it to be reproduced exactly; row \<open>v\<close> gives the number of data
  codewords of version \<open>v\<close> at the levels L, M, Q and H.
\<close>

definition capacityTable :: "(nat \<times> nat \<times> nat \<times> nat) list" where
  "capacityTable =
     [(19, 16, 13, 9), (34, 28, 22, 16), (55, 44, 34, 26), (80, 64, 48, 36),
      (108, 86, 62, 46), (136, 108, 76, 60), (156, 124, 88, 66), (194, 154, 110, 86),
      (232, 182, 132, 100), (274, 216, 154, 122), (324, 254, 180, 140), (370, 290, 206, 158),
      (428, 334, 244, 180), (461, 365, 261, 197), (523, 415, 295, 223), (589, 453, 325, 253),
      (647, 507, 367, 283), (721, 563, 397, 313), (795, 627, 445, 341), (861, 669, 485, 385),
      (932, 714, 512, 406), (1006, 782, 568, 442), (1094, 860, 614, 464), (1174, 914, 664, 514),
      (1276, 1000, 718, 538), (1370, 1062, 754, 596), (1468, 1128, 808, 628),
      (1531, 1193, 871, 661), (1631, 1267, 911, 701), (1735, 1373, 985, 745),
      (1843, 1455, 1033, 793), (1955, 1541, 1115, 845), (2071, 1631, 1171, 901),
      (2191, 1725, 1231, 961), (2306, 1812, 1286, 986), (2434, 1914, 1354, 1054),
      (2566, 1992, 1426, 1096), (2702, 2102, 1502, 1142), (2812, 2216, 1582, 1222),
      (2956, 2334, 1666, 1276)]"

text \<open>
  Modelled from the spec: the lookup in the capacity table of the absent legacy encoder:
  the data codewords of a version in 1 to 40 at a level; there is no other version
  (section 3).
\<close>

definition dataCodewords :: "nat \<Rightarrow> level \<Rightarrow> nat option" where
  "dataCodewords v l =
     (if 1 \<le> v \<and> v \<le> 40
      then (case capacityTable ! (v - 1) of
              (cl, cm, cq, ch) \<Rightarrow>
                Some (case l of LevelL \<Rightarrow> cl | LevelM \<Rightarrow> cm | LevelQ \<Rightarrow> cq | LevelH \<Rightarrow> ch))
      else None)"

text \<open>
  Modelled from the spec: the character class of the Numeric mode of the absent Segment
  Encoder (section 4.2): the digits 0 to 9. A Numeric segment is a 4-bit mode indicator,
  a length field, then the packed digits. The length field has 10, 12 and 14 bits in the
  version tiers 1 to 9, 10 to 26 and 27 to 40 (the widths of the standard; the 41-bit
  scenario of section 8 fixes the first).
\<close>

definition isDigit :: "jschar \<Rightarrow> bool" where
  "isDigit c \<longleftrightarrow> 0x30 \<le> c \<and> c \<le> 0x39"

text \<open>
  Modelled from the spec: the width of the length field of a Numeric segment of the absent
  Segment Encoder, by version tier (sections 4.1 and 4.2).
\<close>

definition numericLengthBits :: "nat \<Rightarrow> nat" where
  "numericLengthBits v = (if v \<le> 9 then 10 else if v \<le> 26 then 12 else 14)"

text \<open>
  Modelled from the spec: the packed digits of a Numeric segment of the absent Segment
  Encoder: 10 bits for every three digits, 7 bits for two leftover digits, 4 bits for one
  (section 4.2).
\<close>

definition numericDataBits :: "nat \<Rightarrow> nat" where
  "numericDataBits n =
     10 * (n div 3) + (if n mod 3 = 2 then 7 else if n mod 3 = 1 then 4 else 0)"

text \<open>
  Modelled from the spec: the bits of a Numeric segment of \<open>n\<close> digits at version
  \<open>v\<close> in the absent Segment Encoder, before terminator and padding: mode indicator,
  length field, packed digits (section 4.2).
\<close>

definition numericSegmentBits :: "nat \<Rightarrow> nat \<Rightarrow> nat" where
  "numericSegmentBits v n = 4 + numericLengthBits v + numericDataBits n"

text \<open>
  Modelled from the spec: the test of the Capacity Planner (section 4.1), part of the
  absent legacy encoder: version \<open>v\<close> suffices for \<open>n\<close> digits at a level when the
  capacity, in bits, is at least the bits of the segment. The terminator is appended only
  if space remains (section 4.2), so it asks for no room of its own.
\<close>

definition numericFits :: "nat \<Rightarrow> level \<Rightarrow> nat \<Rightarrow> bool" where
  "numericFits v l n =
     (case dataCodewords v l of
        None \<Rightarrow> False
      | Some c \<Rightarrow> numericSegmentBits v n \<le> 8 * c)"

text \<open>Modelled from the spec: the side of the symbol of a version (section 3).\<close>

definition sideLength :: "nat \<Rightarrow> nat" where
  "sideLength v = 4 * v + 17"

section \<open>Test environments\<close>

text \<open>
  A legacy object that accepts every call, whose finished symbol has 21 modules a side
  with only the corner module dark; the page supplies a drawing context, and the runtime
  converts the values left to it to \<^verbatim>\<open>NaN\<close>.
\<close>

definition acceptingLibrary :: "unit environment" where
  "acceptingLibrary =
     \<lparr>lib_new = Inr (),
      lib_setTypeNumber = (\<lambda>q t. Inr ()),
      lib_setErrorCorrectLevel = (\<lambda>q l. Inr ()),
      lib_addData = (\<lambda>q d. Inr ()),
      lib_make = (\<lambda>q. Inr ()),
      lib_getModuleCount = (\<lambda>q. 21),
      lib_isDark = (\<lambda>q row col. row = 0 \<and> col = 0),
      dom_getContext = True,
      js_toNumber = (\<lambda>v. Inr NaN)\<rparr>"


text \<open>The five calls of a complete run of the \<^verbatim>\<open>try\<close> block.\<close>

abbreviation (input) theCalls :: "jsstring \<Rightarrow> jsval \<Rightarrow> call list" where
  "theCalls s ec \<equiv>
     [NewQRCode, SetTypeNumber (getTypeNumberForData s),
      SetErrorCorrectLevel (errorCorrectionToLevel ec), AddData s, Make]"

section \<open>Auxiliary facts\<close>

subsection \<open>Strings and values\<close>

lemma trim_empty_iff: "trim s = [] \<longleftrightarrow> (\<forall>c\<in>set s. isWhiteSpace c)"
proof
  assume "trim s = []"
  then have "dropWhile isWhiteSpace (rev (dropWhile isWhiteSpace s)) = []"
    by (simp add: trim_def)
  then have a: "\<forall>c\<in>set (dropWhile isWhiteSpace s). isWhiteSpace c"
    by simp
  have "dropWhile isWhiteSpace s = []"
  proof (rule ccontr)
    assume n: "dropWhile isWhiteSpace s \<noteq> []"
    then have "\<not> isWhiteSpace (hd (dropWhile isWhiteSpace s))" by (rule hd_dropWhile)
    moreover have "hd (dropWhile isWhiteSpace s) \<in> set (dropWhile isWhiteSpace s)"
      using n by simp
    ultimately show False using a by blast
  qed
  then show "\<forall>c\<in>set s. isWhiteSpace c" by simp
next
  assume "\<forall>c\<in>set s. isWhiteSpace c"
  then have d: "dropWhile isWhiteSpace s = []" by simp
  show "trim s = []" by (simp only: trim_def d dropWhile.simps rev.simps)
qed

lemma trim_replicate: "0 < n \<Longrightarrow> \<not> isWhiteSpace c \<Longrightarrow> trim (replicate n c) \<noteq> []"
  by (simp add: trim_empty_iff)

lemma falsy_values:
  "\<not> truthy v \<longleftrightarrow> v \<in> {JUndefined, JNull, JBool False, JNum NaN, JNum (Fin 0), JStr []}"
  by (cases v rule: truthy.cases) auto

subsection \<open>The adapter\<close>

lemma tryBlock_calls:
  "c \<in> set (snd (tryBlock env d sz ec)) \<Longrightarrow> c \<in> set (theCalls d ec)"
  by (auto simp: tryBlock_def Let_def split: sum.splits if_splits)

lemma tryBlock_calls_nonempty: "snd (tryBlock env d sz ec) \<noteq> []"
  by (auto simp: tryBlock_def Let_def split: sum.splits if_splits)

lemma tryBlock_canvas:
  "tryBlock env d sz ec = (Inr cv, tr) \<Longrightarrow>
   dom_getContext env \<and> tr = theCalls d ec \<and>
   (\<exists>n qr. toNumber env sz = Inr n
      \<and> cv = drawQRCodeOnCanvas env
               \<lparr>width = reflectUnsignedLong 300 (toUnsignedLong n),
                height = reflectUnsignedLong 150 (toUnsignedLong n), painted = []\<rparr> qr)"
  by (auto simp: tryBlock_def Let_def split: sum.splits if_splits)

lemma drawQRCodeOnCanvas_size:
  "width (drawQRCodeOnCanvas env cv qr) = width cv"
  "height (drawQRCodeOnCanvas env cv qr) = height cv"
  by (simp_all add: drawQRCodeOnCanvas_def Let_def)

lemma invalidLevelMessage_eq:
  "invalidLevelMessage = lit ''Invalid error correction level. Expected one of: L, M, H, Q''"
  by (simp add: invalidLevelMessage_def validLevels_def lit_def)

lemma catchBlock_cases:
  "catchBlock e = TypeError
   \<or> (\<exists>r. catchBlock e = Value r)
   \<or> (\<exists>m. catchBlock e = Error m \<and> js_includes m (lit ''QR code''))
   \<or> (\<exists>m. catchBlock e = Error (failedPrefix @ m))"
  by (cases e) (auto simp: catchBlock_def split: option.splits bool.splits)

lemma catchBlock_not_invalid: "catchBlock e \<noteq> Error invalidLevelMessage"
proof -
  have a: "\<not> js_includes invalidLevelMessage (lit ''QR code'')"
    by (simp add: invalidLevelMessage_eq) (simp add: lit_def)
  have b: "failedPrefix @ m \<noteq> invalidLevelMessage" for m
    by (simp add: invalidLevelMessage_eq) (simp add: lit_def failedPrefix_def)
  from catchBlock_cases [of e] show ?thesis
    using a b by auto
qed

lemma generateQRCode_Returns:
  assumes "generateQRCode env data opts = (Returns cv, calls)"
  shows "\<exists>s. data = JStr s \<and> trim s \<noteq> [] \<and> length s \<le> 2953
           \<and> js_or (opt_errorCorrection opts) (JStr (lit ''M'')) \<in> JStr ` set validLevels
           \<and> tryBlock env s (js_or (opt_size opts) (JNum (Fin 300)))
                 (js_or (opt_errorCorrection opts) (JStr (lit ''M''))) = (Inr cv, calls)"
  using assms
  by (cases data) (auto simp: generateQRCode_def Let_def split: if_splits sum.splits prod.splits)

lemma generateQRCode_calls:
  assumes "c \<in> set (snd (generateQRCode env (JStr s) opts))"
  shows "c \<in> set (theCalls s (js_or (opt_errorCorrection opts) (JStr (lit ''M''))))"
proof -
  let ?ec = "js_or (opt_errorCorrection opts) (JStr (lit ''M''))"
  let ?sz = "js_or (opt_size opts) (JNum (Fin 300))"
  from assms have "c \<in> set (snd (tryBlock env s ?sz ?ec))"
    by (auto simp: generateQRCode_def Let_def split: if_splits sum.splits prod.splits)
  then show ?thesis by (rule tryBlock_calls)
qed

subsection \<open>The accepting test library\<close>

lemma accepting_modules:
  "concat (map (\<lambda>row. map (Pair row) (filter (\<lambda>col. row = 0 \<and> col = 0) [0..<21])) [0..<21])
     = [(0::nat, 0::nat)]"
  by code_simp

lemma accepting_painted:
  "drawQRCodeOnCanvas acceptingLibrary \<lparr>width = w, height = h, painted = []\<rparr> () =
     \<lparr>width = w, height = h, painted = [(0, 0)]\<rparr>"
  by (simp add: drawQRCodeOnCanvas_def acceptingLibrary_def accepting_modules)

lemma tryBlock_accepting:
  assumes "toNumber acceptingLibrary sz = Inr n"
  shows "tryBlock acceptingLibrary s sz ec =
     (Inr \<lparr>width = reflectUnsignedLong 300 (toUnsignedLong n),
           height = reflectUnsignedLong 150 (toUnsignedLong n), painted = [(0, 0)]\<rparr>,
      theCalls s ec)"
proof -
  have "lib_new acceptingLibrary = Inr ()"
    and "lib_setTypeNumber acceptingLibrary = (\<lambda>q t. Inr ())"
    and "lib_setErrorCorrectLevel acceptingLibrary = (\<lambda>q l. Inr ())"
    and "lib_addData acceptingLibrary = (\<lambda>q d. Inr ())"
    and "lib_make acceptingLibrary = (\<lambda>q. Inr ())"
    and "dom_getContext acceptingLibrary"
    by (simp_all add: acceptingLibrary_def)
  then show ?thesis
    using assms by (simp add: tryBlock_def accepting_painted)
qed

lemma generateQRCode_accepting:
  assumes "trim s \<noteq> []" and "length s \<le> 2953"
    and "js_or (opt_errorCorrection opts) (JStr (lit ''M'')) \<in> JStr ` set validLevels"
    and "toNumber acceptingLibrary (js_or (opt_size opts) (JNum (Fin 300))) = Inr n"
  shows "generateQRCode acceptingLibrary (JStr s) opts =
           (Returns \<lparr>width = reflectUnsignedLong 300 (toUnsignedLong n),
                     height = reflectUnsignedLong 150 (toUnsignedLong n),
                     painted = [(0, 0)]\<rparr>,
            theCalls s (js_or (opt_errorCorrection opts) (JStr (lit ''M''))))"
  using assms by (simp add: generateQRCode_def Let_def tryBlock_accepting)

lemma default_size:
  "toNumber env (js_or JUndefined (JNum (Fin 300))) = Inr (Fin 300)"
  "reflectUnsignedLong 300 (toUnsignedLong (Fin 300)) = 300"
  "reflectUnsignedLong 150 (toUnsignedLong (Fin 300)) = 300"
  by (simp_all add: toNumber_def js_or_def toUnsignedLong_def reflectUnsignedLong_def)



lemma valid_payload:
  "trim (lit ''ABC123XYZ'') \<noteq> [] \<and> length (lit ''ABC123XYZ'') \<le> 2953
   \<and> js_or JUndefined (JStr (lit ''M'')) \<in> JStr ` set validLevels"
  by (simp add: trim_empty_iff isWhiteSpace_def lit_def js_or_def validLevels_def)


lemma accepting_default_run:
  assumes "trim s \<noteq> []" and "length s \<le> 2953"
    and "js_or ec (JStr (lit ''M'')) \<in> JStr ` set validLevels"
  shows "generateQRCode acceptingLibrary (JStr s)
           \<lparr>opt_size = JUndefined, opt_errorCorrection = ec, opt_forcedVersion = fv\<rparr> =
           (Returns \<lparr>width = 300, height = 300, painted = [(0, 0)]\<rparr>,
            theCalls s (js_or ec (JStr (lit ''M''))))"
  using assms
  by (subst generateQRCode_accepting [where n = "Fin 300"]) (simp_all add: default_size)

lemmas run_simps =
  accepting_default_run trim_empty_iff isWhiteSpace_def lit_def js_or_def validLevels_def
  getTypeNumberForData_def errorCorrectionToLevel_def

subsection \<open>Canvas dimensions\<close>

lemma toUnsignedLong_positive:
  assumes "1 \<le> x" and "x < 2147483648"
  shows "toUnsignedLong (Fin x) = nat \<lfloor>x\<rfloor>" and "nat \<lfloor>x\<rfloor> \<le> 2147483647"
proof -
  from assms have f: "0 \<le> \<lfloor>x\<rfloor>" "\<lfloor>x\<rfloor> < 2147483648"
    by (simp_all add: floor_less_iff)
  then have "\<lfloor>x\<rfloor> mod 2 ^ 32 = \<lfloor>x\<rfloor>" by simp
  with assms show "toUnsignedLong (Fin x) = nat \<lfloor>x\<rfloor>"
    by (simp add: toUnsignedLong_def)
  from f show "nat \<lfloor>x\<rfloor> \<le> 2147483647" by linarith
qed

lemma toUnsignedLong_negative:
  assumes "- 2147483648 \<le> x" and "x \<le> - 1"
  shows "2147483647 < toUnsignedLong (Fin x)"
proof -
  define k where "k = \<lfloor>- x\<rfloor>"
  from assms have k: "1 \<le> k" "k \<le> 2147483648"
    by (simp_all add: k_def le_floor_iff floor_le_iff)
  have "(- k) mod 4294967296 = (- k + 4294967296) mod 4294967296" by simp
  also have "\<dots> = - k + 4294967296"
    by (rule mod_pos_pos_trivial) (use k in linarith)+
  finally have m: "(- k) mod 4294967296 = 4294967296 - k" by simp
  from assms have "x < 0" by simp
  then have "toUnsignedLong (Fin x) = nat (4294967296 - k)"
    by (simp add: toUnsignedLong_def k_def [symmetric] m)
  with k show ?thesis by simp
qed

subsection \<open>Numeric capacity\<close>

lemma numericDataBits_Suc: "numericDataBits n \<le> numericDataBits (Suc n)"
  by (simp add: numericDataBits_def mod_Suc div_Suc)

lemma numericDataBits_mono: "m \<le> n \<Longrightarrow> numericDataBits m \<le> numericDataBits n"
  by (rule lift_Suc_mono_le [of numericDataBits]) (rule numericDataBits_Suc)

lemma numericFits_iff:
  assumes c: "dataCodewords v l = Some c"
    and lo: "numericSegmentBits v k \<le> 8 * c"
    and hi: "8 * c < numericSegmentBits v (k + 1)"
  shows "numericFits v l n \<longleftrightarrow> n \<le> k"
proof
  assume "numericFits v l n"
  then have h: "numericSegmentBits v n \<le> 8 * c" using c by (simp add: numericFits_def)
  show "n \<le> k"
  proof (rule ccontr)
    assume "\<not> n \<le> k"
    then have "k + 1 \<le> n" by simp
    then have "numericDataBits (k + 1) \<le> numericDataBits n" by (rule numericDataBits_mono)
    with h hi show False by (simp add: numericSegmentBits_def)
  qed
next
  assume "n \<le> k"
  then have "numericDataBits n \<le> numericDataBits k" by (rule numericDataBits_mono)
  with lo show "numericFits v l n" using c by (simp add: numericFits_def numericSegmentBits_def)
qed

lemmas capacity_simps =
  dataCodewords_def capacityTable_def numericSegmentBits_def numericLengthBits_def
  numericDataBits_def

lemma fits1: "numericFits 1 LevelL n \<longleftrightarrow> n \<le> 41"
  by (rule numericFits_iff [where c = 19]) (simp_all add: capacity_simps)
lemma fits1_Suc: "numericFits (Suc 0) LevelL n \<longleftrightarrow> n \<le> 41"
  using fits1 [of n] by simp
lemma fits2: "numericFits 2 LevelL n \<longleftrightarrow> n \<le> 77"
  by (rule numericFits_iff [where c = 34]) (simp_all add: capacity_simps)
lemma fits3: "numericFits 3 LevelL n \<longleftrightarrow> n \<le> 127"
  by (rule numericFits_iff [where c = 55]) (simp_all add: capacity_simps)
lemma fits4: "numericFits 4 LevelL n \<longleftrightarrow> n \<le> 187"
  by (rule numericFits_iff [where c = 80]) (simp_all add: capacity_simps)
lemma fits5: "numericFits 5 LevelL n \<longleftrightarrow> n \<le> 255"
  by (rule numericFits_iff [where c = 108]) (simp_all add: capacity_simps)
lemma fits6: "numericFits 6 LevelL n \<longleftrightarrow> n \<le> 322"
  by (rule numericFits_iff [where c = 136]) (simp_all add: capacity_simps)
lemma fits7: "numericFits 7 LevelL n \<longleftrightarrow> n \<le> 370"
  by (rule numericFits_iff [where c = 156]) (simp_all add: capacity_simps)

lemma numericFits_LevelL:
  assumes "1 \<le> u" and "u \<le> 7"
  shows "numericFits u LevelL n \<longleftrightarrow>
           n \<le> (if u = 1 then 41 else if u = 2 then 77 else if u = 3 then 127
                 else if u = 4 then 187 else if u = 5 then 255 else if u = 6 then 322
                 else 370)"
proof -
  from assms have "u = 1 \<or> u = 2 \<or> u = 3 \<or> u = 4 \<or> u = 5 \<or> u = 6 \<or> u = 7" by arith
  then show ?thesis
    by (elim disjE) (simp_all add: fits1_Suc fits2 fits3 fits4 fits5 fits6 fits7)
qed

section \<open>Capacity and version selection\<close>

text \<open>
  C1, as stated, fails. The guard compares the length of the payload with the constant
  2953 before the options are read. A payload of 2954 digits requested at level L is
  refused as too long, although version 40 holds it at that level as a Numeric segment
  and 2954 is below the 2956 data codewords of that version. A payload of 1277 small letters
  requested at level H, above the 1276 data codewords of version 40 at H, passes the
  guard: the whole payload goes to the legacy encoder as type 10 at level H, and with
  the accepting library a canvas is returned.
\<close>

theorem length_ceiling_counterexample:
  "generateQRCode acceptingLibrary (JStr (replicate 2954 0x30))
       \<lparr>opt_size = JUndefined, opt_errorCorrection = JStr (lit ''L''),
        opt_forcedVersion = JUndefined\<rparr>
     = (Throws (Error tooLongMessage), [])
   \<and> list_all isDigit (replicate 2954 0x30)
   \<and> requestedLevel (JStr (lit ''L'')) = Some LevelL
   \<and> numericFits 40 LevelL 2954
   \<and> generateQRCode acceptingLibrary (JStr (replicate 1277 0x61))
       \<lparr>opt_size = JUndefined, opt_errorCorrection = JStr (lit ''H''),
        opt_forcedVersion = JUndefined\<rparr>
     = (Returns \<lparr>width = 300, height = 300, painted = [(0, 0)]\<rparr>,
        [NewQRCode, SetTypeNumber 10, SetErrorCorrectLevel 2, AddData (replicate 1277 0x61), Make])
   \<and> requestedLevel (JStr (lit ''H'')) = Some LevelH
   \<and> dataCodewords 40 LevelH = Some 1276"
proof -
  have nw: "\<not> isWhiteSpace 0x30" "\<not> isWhiteSpace 0x61"
    by (simp_all add: isWhiteSpace_def)
  have a: "generateQRCode acceptingLibrary (JStr (replicate 2954 0x30))
       \<lparr>opt_size = JUndefined, opt_errorCorrection = JStr (lit ''L''),
        opt_forcedVersion = JUndefined\<rparr>
     = (Throws (Error tooLongMessage), [])"
    using trim_replicate [of 2954 "0x30"] nw by (simp add: generateQRCode_def)
  have b: "list_all isDigit (replicate 2954 0x30)"
    by (simp add: list_all_iff isDigit_def)
  have c: "numericFits 40 LevelL 2954"
    by (simp add: numericFits_def capacity_simps)
  have d: "generateQRCode acceptingLibrary (JStr (replicate 1277 0x61))
       \<lparr>opt_size = JUndefined, opt_errorCorrection = JStr (lit ''H''),
        opt_forcedVersion = JUndefined\<rparr>
     = (Returns \<lparr>width = 300, height = 300, painted = [(0, 0)]\<rparr>,
        [NewQRCode, SetTypeNumber 10, SetErrorCorrectLevel 2, AddData (replicate 1277 0x61), Make])"
    using trim_replicate [of 1277 "0x61"] nw
    by (subst accepting_default_run)
      (simp_all add: js_or_def validLevels_def getTypeNumberForData_def
        errorCorrectionToLevel_def lit_def)
  have e: "requestedLevel (JStr (lit ''L'')) = Some LevelL" "requestedLevel (JStr (lit ''H'')) = Some LevelH"
    by (simp_all add: requestedLevel_def lit_def)
  have f: "dataCodewords 40 LevelH = Some 1276"
    by (simp add: dataCodewords_def capacityTable_def)
  from a b c d e f show ?thesis by blast
qed

text \<open>
  C1 (amended). For every non-blank payload of more than 2953 code units
  \<^verbatim>\<open>generateQRCode\<close> throws the Error \<^verbatim>\<open>QR code data too long (max 2953 characters)\<close>
  whatever options are given, before any call on the legacy encoder: the ceiling is the
  constant 2953 at every level. For a payload of at most 2953 code units the adapter
  raises no such error of its own (that outcome can only come rethrown from the legacy
  encoder, after calls on it). The payload handed to the legacy encoder is the whole
  payload, never a truncation, and the level constant handed over is that of the
  requested level (of M when none is requested), never another one.
\<close>

theorem generateQRCode_length_ceiling:
  assumes "trim s \<noteq> []"
  shows "(2953 < length s \<longrightarrow>
            generateQRCode env (JStr s) opts = (Throws (Error tooLongMessage), []))
       \<and> (length s \<le> 2953 \<and> fst (generateQRCode env (JStr s) opts) = Throws (Error tooLongMessage)
            \<longrightarrow> snd (generateQRCode env (JStr s) opts) \<noteq> [])
       \<and> (\<forall>d. AddData d \<in> set (snd (generateQRCode env (JStr s) opts)) \<longrightarrow> d = s)
       \<and> (\<forall>l. SetErrorCorrectLevel l \<in> set (snd (generateQRCode env (JStr s) opts))
            \<longrightarrow> l = errorCorrectionToLevel (js_or (opt_errorCorrection opts) (JStr (lit ''M''))))"
proof (intro conjI allI impI)
  assume "2953 < length s"
  with assms show "generateQRCode env (JStr s) opts = (Throws (Error tooLongMessage), [])"
    by (simp add: generateQRCode_def)
next
  assume h: "length s \<le> 2953 \<and> fst (generateQRCode env (JStr s) opts) = Throws (Error tooLongMessage)"
  have n: "tooLongMessage \<noteq> invalidLevelMessage"
    by (simp add: invalidLevelMessage_eq) (simp add: tooLongMessage_def lit_def)
  from h assms n show "snd (generateQRCode env (JStr s) opts) \<noteq> []"
    using tryBlock_calls_nonempty
      [of env s "js_or (opt_size opts) (JNum (Fin 300))"
         "js_or (opt_errorCorrection opts) (JStr (lit ''M''))"]
    by (auto simp: generateQRCode_def Let_def split: if_splits sum.splits prod.splits)
next
  fix d
  assume "AddData d \<in> set (snd (generateQRCode env (JStr s) opts))"
  from generateQRCode_calls [OF this] show "d = s" by simp
next
  fix l
  assume "SetErrorCorrectLevel l \<in> set (snd (generateQRCode env (JStr s) opts))"
  from generateQRCode_calls [OF this]
  show "l = errorCorrectionToLevel (js_or (opt_errorCorrection opts) (JStr (lit ''M'')))" by simp
qed

theorem generateQRCode_length_ceiling_witness:
  "trim (replicate 2954 0x41) \<noteq> []
   \<and> generateQRCode acceptingLibrary (JStr (replicate 2954 0x41))
       \<lparr>opt_size = JUndefined, opt_errorCorrection = JStr (lit ''H''),
        opt_forcedVersion = JUndefined\<rparr>
     = (Throws (Error tooLongMessage), [])
   \<and> trim (replicate 2953 0x41) \<noteq> []
   \<and> AddData (replicate 2953 0x41)
       \<in> set (snd (generateQRCode acceptingLibrary (JStr (replicate 2953 0x41))
            \<lparr>opt_size = JUndefined, opt_errorCorrection = JStr (lit ''H''),
             opt_forcedVersion = JUndefined\<rparr>))"
proof -
  let ?o = "\<lparr>opt_size = JUndefined, opt_errorCorrection = JStr (lit ''H''),
        opt_forcedVersion = JUndefined\<rparr>"
  have nw: "\<not> isWhiteSpace 0x41"
    by (simp add: isWhiteSpace_def)
  have t1: "trim (replicate 2954 0x41) \<noteq> []" and t2: "trim (replicate 2953 0x41) \<noteq> []"
    using nw by (simp_all add: trim_replicate)
  have r: "snd (generateQRCode acceptingLibrary (JStr (replicate 2953 0x41)) ?o)
       = theCalls (replicate 2953 0x41) (JStr (lit ''H''))"
    using t2
    by (subst accepting_default_run) (simp_all add: js_or_def validLevels_def lit_def)
  from generateQRCode_length_ceiling [OF t1, of acceptingLibrary ?o] t1 t2 r
  show ?thesis by simp
qed

text \<open>
  C2, as stated, fails: the planner looks at the length of the payload only. For 20
  digits requested at level H it selects version 1, whose 9 data codewords (72 bits) do
  not hold the 81 bits of the Numeric segment; version 2 is the smallest that does.
\<close>

theorem planner_level_counterexample:
  "getTypeNumberForData (replicate 20 0x30) = 1
   \<and> list_all isDigit (replicate 20 0x30)
   \<and> snd (generateQRCode acceptingLibrary (JStr (replicate 20 0x30))
           \<lparr>opt_size = JUndefined, opt_errorCorrection = JStr (lit ''H''),
            opt_forcedVersion = JUndefined\<rparr>)
       = [NewQRCode, SetTypeNumber 1, SetErrorCorrectLevel 2, AddData (replicate 20 0x30), Make]
   \<and> requestedLevel (JStr (lit ''H'')) = Some LevelH
   \<and> \<not> numericFits 1 LevelH 20
   \<and> numericFits 2 LevelH 20"
  by (simp add: run_simps list_all_iff isDigit_def requestedLevel_def numericFits_def
      capacity_simps)

text \<open>
  C2 (amended). For every payload of at most 370 code units \<^verbatim>\<open>getTypeNumberForData\<close>
  selects the smallest version, among 1 to 7, whose capacity at level L holds a Numeric
  segment of the length of the payload: the thresholds 41, 77, 127, 187, 255, 322 and 370
  of the cascade are the Numeric capacities of the versions 1 to 7 at level L. The
  requested level and the characters of the payload are not consulted. Payloads of more
  than 370 code units are left out.
\<close>

theorem getTypeNumberForData_smallest:
  assumes "length s \<le> 370"
  shows "\<exists>v. getTypeNumberForData s = int v \<and> 1 \<le> v \<and> v \<le> 7
             \<and> numericFits v LevelL (length s)
             \<and> (\<forall>u. 1 \<le> u \<and> u < v \<longrightarrow> \<not> numericFits u LevelL (length s))"
proof -
  define v where "v = nat (getTypeNumberForData s)"
  have v: "1 \<le> v" "v \<le> 7" "getTypeNumberForData s = int v"
    using assms by (simp_all add: v_def getTypeNumberForData_def)
  have fit: "numericFits v LevelL (length s)"
    using assms v(1,2) by (simp add: numericFits_LevelL) (simp add: v_def getTypeNumberForData_def)
  have "\<not> numericFits u LevelL (length s)" if "1 \<le> u \<and> u < v" for u
  proof -
    from that v(2) have u: "1 \<le> u" "u \<le> 7" by simp_all
    show ?thesis
      using that unfolding numericFits_LevelL [OF u]
      by (auto simp: v_def getTypeNumberForData_def split: if_splits)
  qed
  with v fit show ?thesis by blast
qed

theorem getTypeNumberForData_smallest_witness:
  "length (replicate 100 (0x30 :: jschar)) \<le> 370
   \<and> getTypeNumberForData (replicate 100 0x30) = 3
   \<and> numericFits 3 LevelL 100
   \<and> \<not> numericFits 2 LevelL 100
   \<and> \<not> numericFits 1 LevelL 100"
proof -
  have l: "length (replicate 100 (0x30 :: jschar)) \<le> 370" by simp
  have g: "getTypeNumberForData (replicate 100 0x30) = 3"
    by (simp add: getTypeNumberForData_def)
  from getTypeNumberForData_smallest [OF l] g
  obtain v where v: "int v = 3"
    and f: "numericFits v LevelL 100"
    and b: "\<forall>u. 1 \<le> u \<and> u < v \<longrightarrow> \<not> numericFits u LevelL 100"
    by auto
  from v have v3: "v = 3" by simp
  from b v3 have "\<not> numericFits 2 LevelL 100" "\<not> numericFits 1 LevelL 100" by simp_all
  with l g f v3 show ?thesis by simp
qed

text \<open>
  C3. Encoding the numeric string \<^verbatim>\<open>01234567\<close> with level M: the adapter selects version 1
  and hands type number 1, the level constant 0 of M and the whole string to the legacy
  encoder. The string is all digits; its Numeric segment has exactly 41 bits before
  padding, which version 1 holds at level M; and the symbol of version 1 has
  4 * 1 + 17 = 21 modules a side.
\<close>

theorem encode_01234567:
  "getTypeNumberForData (lit ''01234567'') = 1
   \<and> snd (generateQRCode acceptingLibrary (JStr (lit ''01234567''))
           \<lparr>opt_size = JUndefined, opt_errorCorrection = JStr (lit ''M''),
            opt_forcedVersion = JUndefined\<rparr>)
       = [NewQRCode, SetTypeNumber 1, SetErrorCorrectLevel 0, AddData (lit ''01234567''), Make]
   \<and> list_all isDigit (lit ''01234567'')
   \<and> numericSegmentBits 1 (length (lit ''01234567'')) = 41
   \<and> numericFits 1 LevelM (length (lit ''01234567''))
   \<and> sideLength 1 = 21"
  by (simp add: run_simps list_all_iff isDigit_def numericFits_def capacity_simps
      sideLength_def)

text \<open>
  C4, as stated, fails in its second half: for the payload \<^verbatim>\<open>A\<close> the requests L and H, H
  being strictly higher, select the same version 1, so the higher level selects an equal
  version.
\<close>

theorem version_level_counterexample:
  "snd (generateQRCode acceptingLibrary (JStr (lit ''A''))
           \<lparr>opt_size = JUndefined, opt_errorCorrection = JStr (lit ''L''),
            opt_forcedVersion = JUndefined\<rparr>)
       = [NewQRCode, SetTypeNumber 1, SetErrorCorrectLevel 1, AddData (lit ''A''), Make]
   \<and> snd (generateQRCode acceptingLibrary (JStr (lit ''A''))
           \<lparr>opt_size = JUndefined, opt_errorCorrection = JStr (lit ''H''),
            opt_forcedVersion = JUndefined\<rparr>)
       = [NewQRCode, SetTypeNumber 1, SetErrorCorrectLevel 2, AddData (lit ''A''), Make]
   \<and> requestedLevel (JStr (lit ''L'')) = Some LevelL
   \<and> requestedLevel (JStr (lit ''H'')) = Some LevelH"
  by (simp add: run_simps requestedLevel_def)

text \<open>
  C4 (amended). Version selection is monotonic in the length: of two payloads, the one at
  least as long never selects a smaller version, whatever the levels. The version handed
  to the legacy encoder is a function of the payload alone, so a higher level selects the
  same version as a lower one.
\<close>

theorem getTypeNumberForData_monotone:
  "(length a \<le> length b \<longrightarrow> getTypeNumberForData a \<le> getTypeNumberForData b)
   \<and> (\<forall>v. SetTypeNumber v \<in> set (snd (generateQRCode env (JStr a) opts))
          \<longrightarrow> v = getTypeNumberForData a)"
proof (intro conjI allI impI)
  assume "length a \<le> length b"
  then show "getTypeNumberForData a \<le> getTypeNumberForData b"
    by (simp add: getTypeNumberForData_def)
next
  fix v
  assume "SetTypeNumber v \<in> set (snd (generateQRCode env (JStr a) opts))"
  from generateQRCode_calls [OF this] show "v = getTypeNumberForData a" by simp
qed

theorem getTypeNumberForData_monotone_witness:
  "length (lit ''0123'') \<le> length (replicate 50 (0x30 :: jschar))
   \<and> getTypeNumberForData (lit ''0123'') \<le> getTypeNumberForData (replicate 50 0x30)
   \<and> SetTypeNumber 2
       \<in> set (snd (generateQRCode acceptingLibrary (JStr (replicate 50 0x30))
            \<lparr>opt_size = JUndefined, opt_errorCorrection = JStr (lit ''H''),
             opt_forcedVersion = JUndefined\<rparr>))
   \<and> getTypeNumberForData (replicate 50 0x30) = 2"
proof -
  let ?o = "\<lparr>opt_size = JUndefined, opt_errorCorrection = JStr (lit ''H''),
             opt_forcedVersion = JUndefined\<rparr>"
  have l: "length (lit ''0123'') \<le> length (replicate 50 (0x30 :: jschar))"
    by (simp add: lit_def)
  have m: "SetTypeNumber 2
       \<in> set (snd (generateQRCode acceptingLibrary (JStr (replicate 50 0x30)) ?o))"
    by (simp add: run_simps)
  from getTypeNumberForData_monotone [of "lit ''0123''" "replicate 50 0x30"]
    getTypeNumberForData_monotone [of "replicate 50 0x30" _ acceptingLibrary ?o] l m
  show ?thesis by auto
qed

section \<open>Outcomes and errors\<close>




text \<open>
  C6, as stated, fails. The option \<^verbatim>\<open>forcedVersion\<close> is never read: with
  \<^verbatim>\<open>forcedVersion\<close> 99 a canvas is returned. A falsy \<^verbatim>\<open>errorCorrection\<close> (the empty
  string here) is replaced by M and raises nothing. And the level is checked after the
  payload: the level X with an empty payload fails with the non-empty message, not with
  the invalid level one.
\<close>

theorem invalid_option_counterexample:
  "generateQRCode acceptingLibrary (JStr (lit ''ABC''))
       \<lparr>opt_size = JUndefined, opt_errorCorrection = JStr (lit ''M''),
        opt_forcedVersion = JNum (Fin 99)\<rparr>
     = (Returns \<lparr>width = 300, height = 300, painted = [(0, 0)]\<rparr>,
        [NewQRCode, SetTypeNumber 1, SetErrorCorrectLevel 0, AddData (lit ''ABC''), Make])
   \<and> generateQRCode acceptingLibrary (JStr (lit ''ABC''))
       \<lparr>opt_size = JUndefined, opt_errorCorrection = JStr [], opt_forcedVersion = JUndefined\<rparr>
     = (Returns \<lparr>width = 300, height = 300, painted = [(0, 0)]\<rparr>,
        [NewQRCode, SetTypeNumber 1, SetErrorCorrectLevel 0, AddData (lit ''ABC''), Make])
   \<and> generateQRCode acceptingLibrary (JStr [])
       \<lparr>opt_size = JUndefined, opt_errorCorrection = JStr (lit ''X''),
        opt_forcedVersion = JUndefined\<rparr>
     = (Throws (Error nonEmptyMessage), [])
   \<and> nonEmptyMessage \<noteq> invalidLevelMessage"
proof -
  have a: "generateQRCode acceptingLibrary (JStr (lit ''ABC''))
       \<lparr>opt_size = JUndefined, opt_errorCorrection = JStr (lit ''M''),
        opt_forcedVersion = JNum (Fin 99)\<rparr>
     = (Returns \<lparr>width = 300, height = 300, painted = [(0, 0)]\<rparr>,
        [NewQRCode, SetTypeNumber 1, SetErrorCorrectLevel 0, AddData (lit ''ABC''), Make])"
    by (simp add: run_simps)
  have b: "generateQRCode acceptingLibrary (JStr (lit ''ABC''))
       \<lparr>opt_size = JUndefined, opt_errorCorrection = JStr [], opt_forcedVersion = JUndefined\<rparr>
     = (Returns \<lparr>width = 300, height = 300, painted = [(0, 0)]\<rparr>,
        [NewQRCode, SetTypeNumber 1, SetErrorCorrectLevel 0, AddData (lit ''ABC''), Make])"
    by (simp add: run_simps)
  have c: "generateQRCode acceptingLibrary (JStr [])
       \<lparr>opt_size = JUndefined, opt_errorCorrection = JStr (lit ''X''),
        opt_forcedVersion = JUndefined\<rparr>
     = (Throws (Error nonEmptyMessage), [])"
    by (simp add: generateQRCode_def trim_def)
  have d: "nonEmptyMessage \<noteq> invalidLevelMessage"
    by (simp add: invalidLevelMessage_eq) (simp add: nonEmptyMessage_def lit_def)
  from a b c d show ?thesis by simp
qed

text \<open>
  C6 (amended). For every non-blank payload of at most 2953 code units and every truthy
  \<^verbatim>\<open>errorCorrection\<close> that is not one of the strings L, M, H, Q, \<^verbatim>\<open>generateQRCode\<close>
  throws the Error \<^verbatim>\<open>Invalid error correction level. Expected one of: L, M, H, Q\<close> before
  any call on the legacy encoder. For a falsy \<^verbatim>\<open>errorCorrection\<close> (replaced by M) and for
  each of the four letters that error is never the outcome, whatever the payload is and
  whatever the legacy encoder does. The option \<^verbatim>\<open>forcedVersion\<close> is not read: changing
  it changes nothing.
\<close>

theorem generateQRCode_invalid_level:
  "(trim s \<noteq> [] \<and> length s \<le> 2953 \<and> truthy (opt_errorCorrection opts)
      \<and> opt_errorCorrection opts \<notin> JStr ` set validLevels
      \<longrightarrow> generateQRCode env (JStr s) opts = (Throws (Error invalidLevelMessage), []))
   \<and> (\<not> truthy (opt_errorCorrection opts) \<or> opt_errorCorrection opts \<in> JStr ` set validLevels
      \<longrightarrow> fst (generateQRCode env data opts) \<noteq> Throws (Error invalidLevelMessage))
   \<and> generateQRCode env data (opts\<lparr>opt_forcedVersion := fv\<rparr>) = generateQRCode env data opts"
proof (intro conjI impI)
  assume "trim s \<noteq> [] \<and> length s \<le> 2953 \<and> truthy (opt_errorCorrection opts)
      \<and> opt_errorCorrection opts \<notin> JStr ` set validLevels"
  then show "generateQRCode env (JStr s) opts = (Throws (Error invalidLevelMessage), [])"
    by (simp add: generateQRCode_def js_or_def)
next
  assume h: "\<not> truthy (opt_errorCorrection opts) \<or> opt_errorCorrection opts \<in> JStr ` set validLevels"
  have v: "js_or (opt_errorCorrection opts) (JStr (lit ''M'')) \<in> JStr ` set validLevels"
    using h by (auto simp: js_or_def validLevels_def)
  have n1: "nonEmptyMessage \<noteq> invalidLevelMessage"
    by (simp add: invalidLevelMessage_eq) (simp add: nonEmptyMessage_def lit_def)
  have n2: "tooLongMessage \<noteq> invalidLevelMessage"
    by (simp add: invalidLevelMessage_eq) (simp add: tooLongMessage_def lit_def)
  show "fst (generateQRCode env data opts) \<noteq> Throws (Error invalidLevelMessage)"
    using v n1 n2 catchBlock_not_invalid
    by (cases data)
      (auto simp: generateQRCode_def Let_def split: if_splits sum.splits prod.splits)
next
  show "generateQRCode env data (opts\<lparr>opt_forcedVersion := fv\<rparr>) = generateQRCode env data opts"
    by (cases data) (simp_all add: generateQRCode_def Let_def cong: if_cong)
qed

theorem generateQRCode_invalid_level_witness:
  "generateQRCode acceptingLibrary (JStr (lit ''data''))
       \<lparr>opt_size = JUndefined, opt_errorCorrection = JStr (lit ''X''),
        opt_forcedVersion = JUndefined\<rparr>
     = (Throws (Error invalidLevelMessage), [])
   \<and> fst (generateQRCode acceptingLibrary (JStr (lit ''data''))
       \<lparr>opt_size = JUndefined, opt_errorCorrection = JStr (lit ''Q''),
        opt_forcedVersion = JUndefined\<rparr>) \<noteq> Throws (Error invalidLevelMessage)"
proof -
  have a: "trim (lit ''data'') \<noteq> [] \<and> length (lit ''data'') \<le> 2953
      \<and> truthy (JStr (lit ''X'')) \<and> JStr (lit ''X'') \<notin> JStr ` set validLevels"
    by (simp add: trim_empty_iff isWhiteSpace_def lit_def validLevels_def)
  have b: "JStr (lit ''Q'') \<in> JStr ` set validLevels"
    by (simp add: validLevels_def)
  from generateQRCode_invalid_level
         [of "lit ''data''" "\<lparr>opt_size = JUndefined, opt_errorCorrection = JStr (lit ''X''),
            opt_forcedVersion = JUndefined\<rparr>" acceptingLibrary]
       generateQRCode_invalid_level
         [of _ "\<lparr>opt_size = JUndefined, opt_errorCorrection = JStr (lit ''Q''),
            opt_forcedVersion = JUndefined\<rparr>" acceptingLibrary "JStr (lit ''data'')"]
       a b
  show ?thesis by simp
qed

text \<open>
  C7. When the caller omits \<^verbatim>\<open>errorCorrection\<close>, \<^verbatim>\<open>generateQRCode\<close> uses M: for every
  payload, size and legacy encoder, the outcome and the calls made with the option absent
  are those made with the option M, and a level constant handed to the legacy encoder in
  that case is 0, the constant of M.
\<close>

theorem generateQRCode_default_level:
  "generateQRCode env data \<lparr>opt_size = sz, opt_errorCorrection = JUndefined, opt_forcedVersion = fv\<rparr>
     = generateQRCode env data
         \<lparr>opt_size = sz, opt_errorCorrection = JStr (lit ''M''), opt_forcedVersion = fv\<rparr>
   \<and> (\<forall>l. SetErrorCorrectLevel l
            \<in> set (snd (generateQRCode env data
                 \<lparr>opt_size = sz, opt_errorCorrection = JUndefined, opt_forcedVersion = fv\<rparr>))
          \<longrightarrow> l = 0)"
proof -
  have m: "js_or JUndefined (JStr (lit ''M'')) = JStr (lit ''M'')"
    "js_or (JStr (lit ''M'')) (JStr (lit ''M'')) = JStr (lit ''M'')"
    by (simp_all add: js_or_def)
  have eq: "generateQRCode env data \<lparr>opt_size = sz, opt_errorCorrection = JUndefined, opt_forcedVersion = fv\<rparr>
     = generateQRCode env data
         \<lparr>opt_size = sz, opt_errorCorrection = JStr (lit ''M''), opt_forcedVersion = fv\<rparr>"
    by (cases data) (simp_all add: generateQRCode_def Let_def m cong: if_cong)
  have "l = 0" if "SetErrorCorrectLevel l
            \<in> set (snd (generateQRCode env data
                 \<lparr>opt_size = sz, opt_errorCorrection = JUndefined, opt_forcedVersion = fv\<rparr>))" for l
  proof (cases data)
    case (JStr s)
    from generateQRCode_calls [OF that [unfolded JStr]]
    show ?thesis by (simp add: js_or_def errorCorrectionToLevel_def lit_def)
  qed (use that in \<open>simp_all add: generateQRCode_def\<close>)
  with eq show ?thesis by blast
qed

theorem generateQRCode_default_level_witness:
  "generateQRCode acceptingLibrary (JStr (lit ''ABC123XYZ''))
       \<lparr>opt_size = JUndefined, opt_errorCorrection = JUndefined, opt_forcedVersion = JUndefined\<rparr>
     = generateQRCode acceptingLibrary (JStr (lit ''ABC123XYZ''))
         \<lparr>opt_size = JUndefined, opt_errorCorrection = JStr (lit ''M''),
          opt_forcedVersion = JUndefined\<rparr>
   \<and> SetErrorCorrectLevel 0
       \<in> set (snd (generateQRCode acceptingLibrary (JStr (lit ''ABC123XYZ''))
            \<lparr>opt_size = JUndefined, opt_errorCorrection = JUndefined,
             opt_forcedVersion = JUndefined\<rparr>))"
proof -
  have m: "SetErrorCorrectLevel 0
       \<in> set (snd (generateQRCode acceptingLibrary (JStr (lit ''ABC123XYZ''))
            \<lparr>opt_size = JUndefined, opt_errorCorrection = JUndefined,
             opt_forcedVersion = JUndefined\<rparr>))"
    by (simp add: run_simps)
  from generateQRCode_default_level
         [of acceptingLibrary "JStr (lit ''ABC123XYZ'')" JUndefined JUndefined] m
  show ?thesis by simp
qed

text \<open>
  C9. For every input string that is empty or consists only of whitespace characters,
  \<^verbatim>\<open>generateQRCode\<close> throws an Error with the message
  \<^verbatim>\<open>QR code data must be non-empty string\<close> and makes no call on the legacy encoder,
  whatever the options and however long the string; so a non-empty all-whitespace payload
  within capacity is rejected. The message differs from the one for a payload that is too
  long.
\<close>

theorem generateQRCode_blank:
  assumes "\<forall>c\<in>set s. isWhiteSpace c"
  shows "generateQRCode env (JStr s) opts = (Throws (Error nonEmptyMessage), [])
         \<and> nonEmptyMessage \<noteq> tooLongMessage"
proof -
  from assms have "trim s = []" by (simp add: trim_empty_iff)
  then have "generateQRCode env (JStr s) opts = (Throws (Error nonEmptyMessage), [])"
    by (simp add: generateQRCode_def)
  moreover have "nonEmptyMessage \<noteq> tooLongMessage"
    by (simp add: nonEmptyMessage_def tooLongMessage_def lit_def)
  ultimately show ?thesis by simp
qed

theorem generateQRCode_blank_witness:
  "list_all isWhiteSpace (lit ''   '')
   \<and> generateQRCode acceptingLibrary (JStr (lit ''   ''))
        \<lparr>opt_size = JUndefined, opt_errorCorrection = JUndefined, opt_forcedVersion = JUndefined\<rparr>
      = (Throws (Error nonEmptyMessage), [])"
proof -
  have h: "\<forall>c\<in>set (lit ''   ''). isWhiteSpace c"
    by (simp add: lit_def isWhiteSpace_def)
  from generateQRCode_blank [OF h, of acceptingLibrary] h show ?thesis
    by (simp add: list_all_iff)
qed

text \<open>
  C10, as stated, fails for a number that the canvas does not keep: the width and the
  height of an \<^verbatim>\<open>HTMLCanvasElement\<close> are \<^verbatim>\<open>unsigned long\<close> attributes. For the size -5
  the canvas returned has the width 300 and the height 150, its defaults; for the size
  500.5 it has the width and the height 500.
\<close>

theorem canvas_size_counterexample:
  "generateQRCode acceptingLibrary (JStr (lit ''ABC123XYZ''))
       \<lparr>opt_size = JNum (Fin (- 5)), opt_errorCorrection = JUndefined,
        opt_forcedVersion = JUndefined\<rparr>
     = (Returns \<lparr>width = 300, height = 150, painted = [(0, 0)]\<rparr>,
        [NewQRCode, SetTypeNumber 1, SetErrorCorrectLevel 0, AddData (lit ''ABC123XYZ''), Make])
   \<and> generateQRCode acceptingLibrary (JStr (lit ''ABC123XYZ''))
       \<lparr>opt_size = JNum (Fin (1001 / 2)), opt_errorCorrection = JUndefined,
        opt_forcedVersion = JUndefined\<rparr>
     = (Returns \<lparr>width = 500, height = 500, painted = [(0, 0)]\<rparr>,
        [NewQRCode, SetTypeNumber 1, SetErrorCorrectLevel 0, AddData (lit ''ABC123XYZ''), Make])"
proof -
  have u: "toUnsignedLong (Fin (- 5)) = 4294967291" "toUnsignedLong (Fin (1001 / 2)) = 500"
    by (simp_all add: toUnsignedLong_def)
  have c: "theCalls (lit ''ABC123XYZ'') (js_or JUndefined (JStr (lit ''M'')))
      = [NewQRCode, SetTypeNumber 1, SetErrorCorrectLevel 0, AddData (lit ''ABC123XYZ''), Make]"
    by (simp add: getTypeNumberForData_def errorCorrectionToLevel_def js_or_def lit_def)
  have a: "generateQRCode acceptingLibrary (JStr (lit ''ABC123XYZ''))
       \<lparr>opt_size = JNum (Fin (- 5)), opt_errorCorrection = JUndefined,
        opt_forcedVersion = JUndefined\<rparr>
     = (Returns \<lparr>width = 300, height = 150, painted = [(0, 0)]\<rparr>,
        [NewQRCode, SetTypeNumber 1, SetErrorCorrectLevel 0, AddData (lit ''ABC123XYZ''), Make])"
    using valid_payload
    by (subst generateQRCode_accepting [where n = "Fin (- 5)"])
      (simp_all add: c u reflectUnsignedLong_def, simp_all add: toNumber_def js_or_def)
  have b: "generateQRCode acceptingLibrary (JStr (lit ''ABC123XYZ''))
       \<lparr>opt_size = JNum (Fin (1001 / 2)), opt_errorCorrection = JUndefined,
        opt_forcedVersion = JUndefined\<rparr>
     = (Returns \<lparr>width = 500, height = 500, painted = [(0, 0)]\<rparr>,
        [NewQRCode, SetTypeNumber 1, SetErrorCorrectLevel 0, AddData (lit ''ABC123XYZ''), Make])"
    using valid_payload
    by (subst generateQRCode_accepting [where n = "Fin (1001 / 2)"])
      (simp_all add: c u reflectUnsignedLong_def, simp_all add: toNumber_def js_or_def)
  from a b show ?thesis by simp
qed

text \<open>
  C10 (amended). For every payload for which \<^verbatim>\<open>generateQRCode\<close> returns a canvas: when
  \<^verbatim>\<open>options.size\<close> is absent, zero or otherwise falsy, the width and the height of the
  canvas are 300; when it is a whole number from 1 to 2147483647, both are that number
  exactly; a number from 1 up to, not including, 2147483648 gives its integer part for
  both; and a number from -2147483648 to -1 gives the defaults of the canvas, the width
  300 and the height 150.
\<close>

theorem generateQRCode_canvas_size:
  assumes "generateQRCode env data opts = (Returns cv, calls)"
  shows "(opt_size opts \<in> {JUndefined, JNull, JBool False, JNum NaN, JNum (Fin 0), JStr []}
            \<longrightarrow> width cv = 300 \<and> height cv = 300)
       \<and> (\<forall>k. 1 \<le> k \<and> k \<le> 2147483647 \<and> opt_size opts = JNum (Fin (real k))
            \<longrightarrow> width cv = k \<and> height cv = k)
       \<and> (\<forall>x. 1 \<le> x \<and> x < 2147483648 \<and> opt_size opts = JNum (Fin x)
            \<longrightarrow> width cv = nat \<lfloor>x\<rfloor> \<and> height cv = nat \<lfloor>x\<rfloor>)
       \<and> (\<forall>x. - 2147483648 \<le> x \<and> x \<le> - 1 \<and> opt_size opts = JNum (Fin x)
            \<longrightarrow> width cv = 300 \<and> height cv = 150)"
proof -
  let ?sz = "js_or (opt_size opts) (JNum (Fin 300))"
  from generateQRCode_Returns [OF assms] obtain s where
    "tryBlock env s ?sz (js_or (opt_errorCorrection opts) (JStr (lit ''M''))) = (Inr cv, calls)"
    by blast
  from tryBlock_canvas [OF this] obtain n where n: "toNumber env ?sz = Inr n"
    and w: "width cv = reflectUnsignedLong 300 (toUnsignedLong n)"
    and h: "height cv = reflectUnsignedLong 150 (toUnsignedLong n)"
    by (auto simp: drawQRCodeOnCanvas_size)
  have pos: "width cv = nat \<lfloor>x\<rfloor> \<and> height cv = nat \<lfloor>x\<rfloor>"
    if "1 \<le> x \<and> x < 2147483648 \<and> opt_size opts = JNum (Fin x)" for x
  proof -
    from that n have "n = Fin x" by (simp add: js_or_def toNumber_def)
    with that w h toUnsignedLong_positive [of x] show ?thesis
      by (simp add: reflectUnsignedLong_def)
  qed
  have falsy: "width cv = 300 \<and> height cv = 300"
    if "opt_size opts \<in> {JUndefined, JNull, JBool False, JNum NaN, JNum (Fin 0), JStr []}"
  proof -
    from that have "\<not> truthy (opt_size opts)" by (simp only: falsy_values)
    with n have "n = Fin 300" by (simp add: js_or_def toNumber_def)
    with w h show ?thesis by (simp add: default_size)
  qed
  have whole: "width cv = k \<and> height cv = k"
    if "1 \<le> k \<and> k \<le> 2147483647 \<and> opt_size opts = JNum (Fin (real k))" for k
  proof -
    from that have "1 \<le> real k \<and> real k < 2147483648 \<and> opt_size opts = JNum (Fin (real k))"
      by simp
    from pos [OF this] show ?thesis by simp
  qed
  have neg: "width cv = 300 \<and> height cv = 150"
    if "- 2147483648 \<le> x \<and> x \<le> - 1 \<and> opt_size opts = JNum (Fin x)" for x
  proof -
    from that n have "n = Fin x" by (simp add: js_or_def toNumber_def)
    with that w h toUnsignedLong_negative [of x] show ?thesis
      by (simp add: reflectUnsignedLong_def)
  qed
  from falsy whole pos neg show ?thesis by blast
qed

theorem generateQRCode_canvas_size_witness:
  "generateQRCode acceptingLibrary (JStr (lit ''ABC123XYZ''))
       \<lparr>opt_size = JNum (Fin (real 500)), opt_errorCorrection = JUndefined,
        opt_forcedVersion = JUndefined\<rparr>
     = (Returns \<lparr>width = 500, height = 500, painted = [(0, 0)]\<rparr>,
        [NewQRCode, SetTypeNumber 1, SetErrorCorrectLevel 0, AddData (lit ''ABC123XYZ''), Make])
   \<and> width \<lparr>width = 500, height = 500, painted = [(0, 0)]\<rparr> = 500
   \<and> generateQRCode acceptingLibrary (JStr (lit ''ABC123XYZ''))
       \<lparr>opt_size = JUndefined, opt_errorCorrection = JUndefined, opt_forcedVersion = JUndefined\<rparr>
     = (Returns \<lparr>width = 300, height = 300, painted = [(0, 0)]\<rparr>,
        [NewQRCode, SetTypeNumber 1, SetErrorCorrectLevel 0, AddData (lit ''ABC123XYZ''), Make])"
proof -
  have c: "theCalls (lit ''ABC123XYZ'') (js_or JUndefined (JStr (lit ''M'')))
      = [NewQRCode, SetTypeNumber 1, SetErrorCorrectLevel 0, AddData (lit ''ABC123XYZ''), Make]"
    by (simp add: getTypeNumberForData_def errorCorrectionToLevel_def js_or_def lit_def)
  have u: "toUnsignedLong (Fin 500) = 500"
    by (simp add: toUnsignedLong_def)
  have r1: "generateQRCode acceptingLibrary (JStr (lit ''ABC123XYZ''))
       \<lparr>opt_size = JNum (Fin (real 500)), opt_errorCorrection = JUndefined,
        opt_forcedVersion = JUndefined\<rparr>
     = (Returns \<lparr>width = 500, height = 500, painted = [(0, 0)]\<rparr>,
        [NewQRCode, SetTypeNumber 1, SetErrorCorrectLevel 0, AddData (lit ''ABC123XYZ''), Make])"
    using valid_payload
    by (subst generateQRCode_accepting [where n = "Fin 500"])
      (simp_all add: c u reflectUnsignedLong_def, simp_all add: toNumber_def js_or_def)
  have r2: "generateQRCode acceptingLibrary (JStr (lit ''ABC123XYZ''))
       \<lparr>opt_size = JUndefined, opt_errorCorrection = JUndefined, opt_forcedVersion = JUndefined\<rparr>
     = (Returns \<lparr>width = 300, height = 300, painted = [(0, 0)]\<rparr>,
        [NewQRCode, SetTypeNumber 1, SetErrorCorrectLevel 0, AddData (lit ''ABC123XYZ''), Make])"
    using valid_payload by (simp add: accepting_default_run c)
  from generateQRCode_canvas_size [OF r1] generateQRCode_canvas_size [OF r2] r1 r2
  show ?thesis by simp
qed

end
